theory Spec2Isabelle
  imports Complex_Main "HOL-Library.Word" "HOL-Library.AList"
begin

section \<open>Values of the Go program\<close>

text \<open>
  A \<^verbatim>\<open>float64\<close> is compared but never computed with in the handlers, so it is
  modelled by the value it denotes: a finite float is the real number it stands for,
  and the three special values are kept apart because \<^verbatim>\<open>>=\<close> treats them apart
  (every comparison with NaN is false).
\<close>

datatype f64 = Finite real | PosInf | NegInf | NaN

fun f64_ge :: "f64 \<Rightarrow> f64 \<Rightarrow> bool" where
  "f64_ge NaN _ = False"
| "f64_ge _ NaN = False"
| "f64_ge PosInf _ = True"
| "f64_ge _ NegInf = True"
| "f64_ge (Finite a) (Finite b) = (b \<le> a)"
| "f64_ge (Finite _) PosInf = False"
| "f64_ge NegInf _ = False"

text \<open>
  Go errors. \<open>NumError fn num err\<close> is \<^verbatim>\<open>*strconv.NumError\<close>; \<open>Wrapf msg err\<close> is
  \<^verbatim>\<open>fmt.Errorf(msg + ": %w", err)\<close>; \<open>LibError\<close> is an error of a library whose text
  the program only passes on.
\<close>

datatype go_error =
    ErrSyntax
  | ErrRange
  | NumError string string go_error
  | Wrapf string go_error
  | ValidationError "string list"
  | LibError string

text \<open>\<^verbatim>\<open>type Item struct { Name string; Price float64; IsOffer *bool }\<close>\<close>

record Item =
  Name :: string
  Price :: f64
  IsOffer :: "bool option"

text \<open>
  The values the program stores in \<^verbatim>\<open>interface{}\<close> slots: map entries of the fake
  database, \<^verbatim>\<open>gin.H\<close> response bodies and the arguments of log calls. A
  \<^verbatim>\<open>map[string]interface{}\<close> is an association list read with \<open>map_of\<close>;
  \<open>GoErrorText err\<close> is the string \<^verbatim>\<open>err.Error()\<close>; a slice is the list of its
  elements, a nil slice the empty list.
\<close>

datatype go_value =
    GoString string
  | GoInt int
  | GoFloat f64
  | GoError go_error
  | GoErrorText go_error
  | GoItem Item
  | GoMap "(string \<times> go_value) list"
  | GoSlice "go_value list"

type_synonym row = "(string \<times> go_value) list"

datatype panic = TypeAssertionPanic

section \<open>Spans and loggers\<close>

text \<open>
  \<^verbatim>\<open>trace.SpanContext\<close>: a 16-byte trace identifier and an 8-byte span identifier,
  read big-endian. It is valid when neither is all zero. \<^verbatim>\<open>String()\<close> is the
  lower-case hexadecimal rendering, 32 and 16 digits wide.
\<close>

record SpanContext =
  TraceID :: "128 word"
  SpanID :: "64 word"

definition IsValid :: "SpanContext \<Rightarrow> bool" where
  "IsValid sc = (TraceID sc \<noteq> 0 \<and> SpanID sc \<noteq> 0)"

definition hexdigit :: "nat \<Rightarrow> char" where
  "hexdigit d = (if d < 10 then char_of (48 + d) else char_of (87 + d))"

fun hex_of :: "nat \<Rightarrow> nat \<Rightarrow> string" where
  "hex_of 0 v = []"
| "hex_of (Suc k) v = hex_of k (v div 16) @ [hexdigit (v mod 16)]"

definition TraceID_String :: "128 word \<Rightarrow> string" where
  "TraceID_String t = hex_of 32 (unat t)"

definition SpanID_String :: "64 word \<Rightarrow> string" where
  "SpanID_String s = hex_of 16 (unat s)"

text \<open>
  A \<^verbatim>\<open>*slog.Logger\<close> over a JSON handler: the writers its handler writes to and the
  attributes attached by \<^verbatim>\<open>With\<close>. A log record is rendered as one line with the
  logger's attributes first and the call's arguments after them. The handler's threshold
  is \<^verbatim>\<open>Info\<close> and the program logs at \<^verbatim>\<open>Info\<close>, \<^verbatim>\<open>Warn\<close> and \<^verbatim>\<open>Error\<close>
  only, so every record is written. The time stamp of a line is left out.
\<close>

datatype writer = Stdout | LogFile

datatype level = LevelInfo | LevelWarn | LevelError

record Logger =
  writers :: "writer list"
  attrs :: "(string \<times> go_value) list"

record log_line =
  line_level :: level
  line_msg :: string
  line_fields :: "(string \<times> go_value) list"

definition With :: "Logger \<Rightarrow> (string \<times> go_value) list \<Rightarrow> Logger" where
  "With lg kvs = lg\<lparr>attrs := attrs lg @ kvs\<rparr>"

definition render :: "Logger \<Rightarrow> level \<Rightarrow> string \<Rightarrow> (string \<times> go_value) list \<Rightarrow> log_line" where
  "render lg lv m args = \<lparr>line_level = lv, line_msg = m, line_fields = attrs lg @ args\<rparr>"

text \<open>\<^verbatim>\<open>slog.New(slog.NewJSONHandler(os.Stdout, nil))\<close>\<close>

definition stdoutLogger :: Logger where
  "stdoutLogger = \<lparr>writers = [Stdout], attrs = []\<rparr>"

section \<open>The request context and the process state\<close>

text \<open>
  What a \<^verbatim>\<open>gin.Context\<close> holds for this program. \<open>FullPath\<close> is the matched route
  template (empty when no route matched), \<open>Params\<close> and \<open>Query\<close> the path and query
  parameters in order of appearance, \<open>Span\<close> the span context found in the request's
  \<^verbatim>\<open>context.Context\<close> (all zero when there is none), \<open>Keys\<close> the key/value bag of
  \<^verbatim>\<open>c.Set\<close> and \<^verbatim>\<open>c.Get\<close> (it holds loggers and, under a key of the tracing
  library's own, a tracer), \<open>Status\<close> what \<^verbatim>\<open>c.Writer.Status()\<close> returns and
  \<open>Response\<close> the object last handed to \<^verbatim>\<open>c.JSON\<close>. (\<^verbatim>\<open>net/http\<close> only lets
  through a method that is a token of ASCII bytes, so the label values the metrics
  middleware builds are valid UTF-8 and \<^verbatim>\<open>WithLabelValues\<close> does not reject them.)
\<close>

datatype key_value = KLogger Logger | KTracer

record Context =
  Method :: string
  FullPath :: string
  Params :: "(string \<times> string) list"
  Query :: "(string \<times> string) list"
  Body :: string
  Span :: SpanContext
  Keys :: "string \<rightharpoonup> key_value"
  Status :: int
  Response :: "row option"

definition Set_key :: "string \<Rightarrow> key_value \<Rightarrow> Context \<Rightarrow> Context" where
  "Set_key k v c = c\<lparr>Keys := (Keys c)(k \<mapsto> v)\<rparr>"

definition JSON :: "int \<Rightarrow> row \<Rightarrow> Context \<Rightarrow> Context" where
  "JSON code obj c = c\<lparr>Status := code, Response := Some obj\<rparr>"

definition Param :: "Context \<Rightarrow> string \<Rightarrow> string" where
  "Param c k = (case map_of (Params c) k of None \<Rightarrow> [] | Some v \<Rightarrow> v)"

definition DefaultQuery :: "Context \<Rightarrow> string \<Rightarrow> string \<Rightarrow> string" where
  "DefaultQuery c k d = (case map_of (Query c) k of None \<Rightarrow> d | Some v \<Rightarrow> v)"

definition Query_get :: "Context \<Rightarrow> string \<Rightarrow> string" where
  "Query_get c k = DefaultQuery c k []"

text \<open>
  The package-level state: the five Prometheus collectors, the two item tables, the
  lines written to standard output and to the log file, the clock read by
  \<^verbatim>\<open>time.Now\<close> (nanoseconds) and the spans handed to the exporter. A counter is the
  number of its increments; a histogram is the list of the values observed, oldest
  first. The duration histogram keeps the elapsed nanoseconds whose
  \<^verbatim>\<open>Seconds()\<close> the code observes.
\<close>

record world =
  httpRequestsTotal :: "string \<times> string \<times> string \<Rightarrow> nat"
  httpRequestDuration :: "string \<times> string \<Rightarrow> int list"
  itemOperationsTotal :: "string \<times> string \<Rightarrow> nat"
  searchRequestsTotal :: nat
  searchResultsCount :: "f64 list"
  fakeItemsDB :: "(int \<times> row) list"
  allItems :: "row list"
  stdout :: "log_line list"
  logfile :: "log_line list"
  now :: int
  endedSpans :: "(SpanContext \<times> int) list"

definition emit :: "Logger \<Rightarrow> level \<Rightarrow> string \<Rightarrow> (string \<times> go_value) list \<Rightarrow> world \<Rightarrow> world" where
  "emit lg lv m args w =
     w\<lparr>stdout := (if Stdout \<in> set (writers lg) then stdout w @ [render lg lv m args] else stdout w),
       logfile := (if LogFile \<in> set (writers lg) then logfile w @ [render lg lv m args] else logfile w)\<rparr>"

section \<open>The logger accessor\<close>

text \<open>
  \<^verbatim>\<open>getLogger\<close>: the value under the key \<^verbatim>\<open>"logger"\<close>, asserted to be a
  \<^verbatim>\<open>*slog.Logger\<close>; a fresh standard-output logger when the key is absent. The type
  assertion is unchecked in the source, so a value of another type panics.
\<close>

definition getLogger :: "Context \<Rightarrow> panic + Logger" where
  "getLogger c =
     (case Keys c ''logger'' of
        None \<Rightarrow> Inr stdoutLogger
      | Some (KLogger l) \<Rightarrow> Inr l
      | Some KTracer \<Rightarrow> Inl TypeAssertionPanic)"

section \<open>Library functions the handlers call\<close>

text \<open>
  \<^verbatim>\<open>strconv.Atoi\<close> on a 64-bit platform: an optional sign, then one or more decimal
  digits. The digits are read left to right into an unsigned 64-bit accumulator; the
  first byte that is no digit is a syntax error, an accumulator that would overflow is a
  range error, whichever comes first, and a value that was read in full is a range error
  when it does not fit \<^verbatim>\<open>int64\<close>.
\<close>

definition is_digit :: "char \<Rightarrow> bool" where
  "is_digit ch = (48 \<le> (of_char ch :: nat) \<and> (of_char ch :: nat) \<le> 57)"

fun parseUint :: "nat \<Rightarrow> string \<Rightarrow> go_error + nat" where
  "parseUint n [] = Inr n"
| "parseUint n (ch # rest) =
     (if is_digit ch
      then (if n < 2 ^ 64 div 10 + 1
            then (let n1 = n * 10 + ((of_char ch :: nat) - 48)
                  in if n1 < 2 ^ 64 then parseUint n1 rest else Inl ErrRange)
            else Inl ErrRange)
      else Inl ErrSyntax)"

definition Atoi :: "string \<Rightarrow> go_error + int" where
  "Atoi s =
     (let neg = (s \<noteq> [] \<and> hd s = CHR ''-'');
          ds = (if s \<noteq> [] \<and> (hd s = CHR ''+'' \<or> hd s = CHR ''-'') then tl s else s)
      in if ds = [] then Inl (NumError ''Atoi'' s ErrSyntax)
         else (case parseUint 0 ds of
                 Inl err \<Rightarrow> Inl (NumError ''Atoi'' s err)
               | Inr un \<Rightarrow>
                   (if neg
                    then (if un \<le> 2 ^ 63 then Inr (- int un)
                          else Inl (NumError ''Atoi'' s ErrRange))
                    else (if un < 2 ^ 63 then Inr (int un)
                          else Inl (NumError ''Atoi'' s ErrRange)))))"

text \<open>\<^verbatim>\<open>strconv.Itoa\<close>: the decimal rendering of an integer.\<close>

fun nat_digits :: "nat \<Rightarrow> string" where
  "nat_digits n =
     (if n < 10 then [char_of (48 + n)] else nat_digits (n div 10) @ [char_of (48 + n mod 10)])"

declare nat_digits.simps [simp del]

definition Itoa :: "int \<Rightarrow> string" where
  "Itoa i = (if i < 0 then CHR ''-'' # nat_digits (nat (- i)) else nat_digits (nat i))"

text \<open>
  \<^verbatim>\<open>strings.ToLower\<close>: a string of ASCII bytes has its letters \<^verbatim>\<open>A\<close> to \<^verbatim>\<open>Z\<close>
  lowered byte by byte; any other string goes through the Unicode case tables, which are
  a parameter here. \<^verbatim>\<open>strings.Contains\<close>: the second string occurs in the first as
  a contiguous run of bytes.
\<close>

definition isASCII :: "string \<Rightarrow> bool" where
  "isASCII s = list_all (\<lambda>ch. (of_char ch :: nat) < 128) s"

definition lower_byte :: "char \<Rightarrow> char" where
  "lower_byte ch =
     (if 65 \<le> (of_char ch :: nat) \<and> (of_char ch :: nat) \<le> 90
      then char_of ((of_char ch :: nat) + 32) else ch)"

definition ToLower :: "(string \<Rightarrow> string) \<Rightarrow> string \<Rightarrow> string" where
  "ToLower unicodeLower s = (if isASCII s then map lower_byte s else unicodeLower s)"

fun Contains :: "string \<Rightarrow> string \<Rightarrow> bool" where
  "Contains [] substr = (substr = [])"
| "Contains (x # xs) substr = (take (length substr) (x # xs) = substr \<or> Contains xs substr)"

text \<open>
  The library functions taken as parameters: \<^verbatim>\<open>strconv.ParseFloat(s, 64)\<close> (Go
  returns a value and an error), the Unicode lowering behind \<^verbatim>\<open>strings.ToLower\<close>,
  and the decoding of a request body into a zero-valued \<^verbatim>\<open>Item\<close> by
  \<^verbatim>\<open>encoding/json\<close> (a field the body does not mention keeps its zero value).
\<close>

record go_lib =
  ParseFloat :: "string \<Rightarrow> f64 \<times> go_error option"
  UnicodeLower :: "string \<Rightarrow> string"
  Unmarshal :: "string \<Rightarrow> go_error + Item"

text \<open>
  \<^verbatim>\<open>c.ShouldBindJSON(&item)\<close>: decode, then check the struct tags. \<^verbatim>\<open>Name\<close> and
  \<^verbatim>\<open>Price\<close> carry \<^verbatim>\<open>binding:"required"\<close>, which fails on the zero value of the
  field's type (the empty string, the number zero).
\<close>

definition validateItem :: "Item \<Rightarrow> go_error option" where
  "validateItem it =
     (let failed = (if Name it = [] then [''Name''] else []) @
                   (if Price it = Finite 0 then [''Price''] else [])
      in if failed = [] then None else Some (ValidationError failed))"

definition ShouldBindJSON :: "go_lib \<Rightarrow> Context \<Rightarrow> go_error + Item" where
  "ShouldBindJSON L c =
     (case Unmarshal L (Body c) of
        Inl err \<Rightarrow> Inl err
      | Inr it \<Rightarrow> (case validateItem it of Some err \<Rightarrow> Inl err | None \<Rightarrow> Inr it))"

section \<open>Metric updates\<close>

definition Inc :: "('k \<Rightarrow> nat) \<Rightarrow> 'k \<Rightarrow> ('k \<Rightarrow> nat)" where
  "Inc cv k = cv(k := Suc (cv k))"

definition Observe :: "('k \<Rightarrow> 'v list) \<Rightarrow> 'k \<Rightarrow> 'v \<Rightarrow> ('k \<Rightarrow> 'v list)" where
  "Observe hv k v = hv(k := hv k @ [v])"

definition itemOperationsTotal_Inc :: "string \<Rightarrow> string \<Rightarrow> world \<Rightarrow> world" where
  "itemOperationsTotal_Inc operation st w =
     w\<lparr>itemOperationsTotal := Inc (itemOperationsTotal w) (operation, st)\<rparr>"

section \<open>Handlers\<close>

text \<open>
  A handler receives the request context and the process state and returns both, or
  panics. The initial contents of the two item tables:
\<close>

type_synonym handler = "Context \<Rightarrow> world \<Rightarrow> panic + Context \<times> world"

definition fakeItemsDB_init :: "(int \<times> row) list" where
  "fakeItemsDB_init =
     [(1, [(''name'', GoString ''laptop''), (''price'', GoFloat (Finite 1200))]),
      (2, [(''name'', GoString ''mouse''), (''price'', GoFloat (Finite 25))]),
      (3, [(''name'', GoString ''keyboard''), (''price'', GoFloat (Finite 75))])]"

definition allItems_init :: "row list" where
  "allItems_init =
     [[(''name'', GoString ''laptop''), (''price'', GoFloat (Finite 1200))],
      [(''name'', GoString ''mouse''), (''price'', GoFloat (Finite 25))],
      [(''name'', GoString ''keyboard''), (''price'', GoFloat (Finite 75))],
      [(''name'', GoString ''monitor''), (''price'', GoFloat (Finite 300))],
      [(''name'', GoString ''webcam''), (''price'', GoFloat (Finite 50))]]"

definition readRoot :: handler where
  "readRoot c w =
     (case getLogger c of
        Inl p \<Rightarrow> Inl p
      | Inr logger \<Rightarrow>
          Inr (JSON 200 [(''message'', GoString ''Welcome to the Go application!'')] c,
               emit logger LevelInfo ''Accessed root endpoint'' [] w))"

definition readItem :: handler where
  "readItem c w =
     (case getLogger c of
        Inl p \<Rightarrow> Inl p
      | Inr logger \<Rightarrow>
          (let itemIDStr = Param c ''item_id'' in
           case Atoi itemIDStr of
             Inl err \<Rightarrow>
               Inr (JSON 400 [(''detail'', GoString ''Invalid item ID'')] c,
                    itemOperationsTotal_Inc ''read'' ''bad_request''
                      (emit logger LevelWarn ''Invalid item ID''
                         [(''item_id'', GoString itemIDStr), (''error'', GoError err)] w))
           | Inr itemID \<Rightarrow>
               (case map_of (fakeItemsDB w) itemID of
                  None \<Rightarrow>
                    Inr (JSON 404 [(''detail'', GoString ''Item not found'')] c,
                         itemOperationsTotal_Inc ''read'' ''not_found''
                           (emit logger LevelInfo ''Item not found''
                              [(''item_id'', GoInt itemID)] w))
                | Some item \<Rightarrow>
                    (let response =
                           foldl (\<lambda>r (k, v). AList.update k v r) [(''item_id'', GoInt itemID)] item
                     in Inr (JSON 200 response c,
                             itemOperationsTotal_Inc ''read'' ''success''
                               (emit logger LevelInfo ''Successfully retrieved item''
                                  [(''item_id'', GoInt itemID)] w))))))"

text \<open>
  The loop of \<^verbatim>\<open>searchItems\<close> over \<^verbatim>\<open>allItems\<close>, with \<^verbatim>\<open>results\<close> as the
  accumulator. Both type assertions come before the tests, as in the source, and each
  panics on a missing key or a value of another type.
\<close>

definition assertString :: "go_value option \<Rightarrow> panic + string" where
  "assertString v = (case v of Some (GoString s) \<Rightarrow> Inr s | _ \<Rightarrow> Inl TypeAssertionPanic)"

definition assertFloat64 :: "go_value option \<Rightarrow> panic + f64" where
  "assertFloat64 v = (case v of Some (GoFloat x) \<Rightarrow> Inr x | _ \<Rightarrow> Inl TypeAssertionPanic)"

definition nameMatch :: "go_lib \<Rightarrow> string \<Rightarrow> string \<Rightarrow> bool" where
  "nameMatch L name itemName =
     (name = [] \<or> Contains (ToLower (UnicodeLower L) itemName) (ToLower (UnicodeLower L) name))"

fun searchLoop :: "go_lib \<Rightarrow> string \<Rightarrow> f64 \<Rightarrow> row list \<Rightarrow> row list \<Rightarrow> panic + row list" where
  "searchLoop L name minPrice [] results = Inr results"
| "searchLoop L name minPrice (item # rest) results =
     (case assertString (map_of item ''name'') of
        Inl p \<Rightarrow> Inl p
      | Inr itemName \<Rightarrow>
          (case assertFloat64 (map_of item ''price'') of
             Inl p \<Rightarrow> Inl p
           | Inr itemPrice \<Rightarrow>
               searchLoop L name minPrice rest
                 (if nameMatch L name itemName \<and> f64_ge itemPrice minPrice
                  then results @ [item] else results)))"

definition searchItems :: "go_lib \<Rightarrow> handler" where
  "searchItems L c w =
     (case getLogger c of
        Inl p \<Rightarrow> Inl p
      | Inr logger \<Rightarrow>
          (let w1 = w\<lparr>searchRequestsTotal := Suc (searchRequestsTotal w)\<rparr>;
               name = Query_get c ''name'';
               minPriceStr = DefaultQuery c ''min_price'' ''0'';
               parsed = ParseFloat L minPriceStr;
               w2 = (case snd parsed of
                       Some err \<Rightarrow>
                         emit logger LevelWarn ''Invalid min_price query param''
                           [(''min_price'', GoString minPriceStr), (''error'', GoError err)] w1
                     | None \<Rightarrow> w1);
               minPrice = (case snd parsed of Some err \<Rightarrow> Finite 0 | None \<Rightarrow> fst parsed)
           in case searchLoop L name minPrice (allItems w2) [] of
                Inl p \<Rightarrow> Inl p
              | Inr results \<Rightarrow>
                  (let w3 = w2\<lparr>searchResultsCount :=
                                 searchResultsCount w2 @ [Finite (real (length results))]\<rparr>;
                       w4 = emit logger LevelInfo ''Search performed''
                              [(''query_name'', GoString name), (''min_price'', GoFloat minPrice),
                               (''results_found'', GoInt (int (length results)))] w3
                   in Inr (JSON 200 [(''search_results'', GoSlice (map GoMap results))] c, w4))))"

definition createItem :: "go_lib \<Rightarrow> handler" where
  "createItem L c w =
     (case getLogger c of
        Inl p \<Rightarrow> Inl p
      | Inr logger \<Rightarrow>
          (case ShouldBindJSON L c of
             Inl err \<Rightarrow>
               Inr (JSON 400 [(''detail'', GoErrorText err)] c,
                    itemOperationsTotal_Inc ''create'' ''bad_request''
                      (emit logger LevelWarn ''Failed to bind JSON for create item''
                         [(''error'', GoErrorText err)] w))
           | Inr item \<Rightarrow>
               Inr (JSON 200 [(''message'', GoString ''Item created successfully''),
                              (''item'', GoItem item)] c,
                    itemOperationsTotal_Inc ''create'' ''success''
                      (emit logger LevelInfo ''Item created successfully''
                         [(''item_name'', GoString (Name item)),
                          (''item_price'', GoFloat (Price item))] w))))"

definition getStatus :: handler where
  "getStatus c w =
     (case getLogger c of
        Inl p \<Rightarrow> Inl p
      | Inr logger \<Rightarrow>
          Inr (JSON 200 [(''status'', GoString ''healthy''), (''version'', GoString ''1.0'')] c,
               emit logger LevelInfo ''Health check performed'' [] w))"

definition getError500 :: handler where
  "getError500 c w =
     (case getLogger c of
        Inl p \<Rightarrow> Inl p
      | Inr logger \<Rightarrow>
          Inr (JSON 500 [(''detail'', GoString ''Internal Server Error'')] c,
               emit logger LevelError ''Simulating 500 Internal Server Error'' [] w))"

definition getError400 :: handler where
  "getError400 c w =
     (case getLogger c of
        Inl p \<Rightarrow> Inl p
      | Inr logger \<Rightarrow>
          Inr (JSON 400 [(''detail'', GoString ''Bad Request'')] c,
               emit logger LevelWarn ''Simulating 400 Bad Request'' [] w))"

text \<open>The API routes registered in \<^verbatim>\<open>main\<close>, by method and route template.\<close>

definition apiRoutes :: "go_lib \<Rightarrow> ((string \<times> string) \<times> handler) list" where
  "apiRoutes L =
     [((''GET'', ''/''), readRoot),
      ((''GET'', ''/items/:item_id''), readItem),
      ((''GET'', ''/search/''), searchItems L),
      ((''POST'', ''/items/''), createItem L),
      ((''GET'', ''/status''), getStatus),
      ((''GET'', ''/error-500''), getError500),
      ((''GET'', ''/error-400''), getError400)]"

section \<open>Middleware\<close>

text \<open>
  A middleware is a handler that calls \<^verbatim>\<open>c.Next()\<close>; the rest of the chain, which
  \<^verbatim>\<open>c.Next()\<close> runs, is its first argument. A panic in the rest of the chain unwinds
  through the middleware, so what follows \<^verbatim>\<open>c.Next()\<close> is skipped. The model keeps
  no state after a panic.
\<close>

definition requestLogger :: "Logger \<Rightarrow> SpanContext \<Rightarrow> Logger" where
  "requestLogger logger sc =
     (if IsValid sc
      then With logger [(''trace_id'', GoString (TraceID_String (TraceID sc))),
                        (''span_id'', GoString (SpanID_String (SpanID sc)))]
      else logger)"

definition structuredLogMiddleware :: "Logger \<Rightarrow> handler \<Rightarrow> handler" where
  "structuredLogMiddleware logger next c w =
     next (Set_key ''logger'' (KLogger (requestLogger logger (Span c))) c) w"

definition routeLabel :: "Context \<Rightarrow> string" where
  "routeLabel c = (if FullPath c = [] then ''none'' else FullPath c)"

definition prometheusMiddleware :: "handler \<Rightarrow> handler" where
  "prometheusMiddleware next c w =
     (let start = now w in
      case next c w of
        Inl p \<Rightarrow> Inl p
      | Inr (c', w') \<Rightarrow>
          (let duration = now w' - start;
               status = Itoa (Status c');
               path = routeLabel c'
           in Inr (c', w'\<lparr>httpRequestDuration :=
                             Observe (httpRequestDuration w') (Method c', path) duration,
                           httpRequestsTotal :=
                             Inc (httpRequestsTotal w') (Method c', path, status)\<rparr>)))"

text \<open>
  Modelled from the spec: \<^verbatim>\<open>otelgin.Middleware\<close>, the span propagator, is a library
  and not part of the sources. It starts a span for the request and exposes it through
  the request context, runs the rest of the chain, and on the way back finalises the span
  and hands it to the exporter, whatever the response status. With no tracer provider
  installed the span is the invalid one already in the context and nothing is exported.
  The identifiers of a new span are the provider's choice, a parameter here. (The library
  also keeps its tracer in the key/value bag, under a key of its own.)
\<close>

datatype TracerProvider = NoopProvider | SdkProvider "Context \<Rightarrow> SpanContext"

definition startSpan :: "TracerProvider \<Rightarrow> Context \<Rightarrow> SpanContext" where
  "startSpan tp c = (case tp of NoopProvider \<Rightarrow> Span c | SdkProvider gen \<Rightarrow> gen c)"

definition endSpan :: "TracerProvider \<Rightarrow> SpanContext \<Rightarrow> int \<Rightarrow> world \<Rightarrow> world" where
  "endSpan tp sc st w =
     (case tp of
        NoopProvider \<Rightarrow> w
      | SdkProvider gen \<Rightarrow> w\<lparr>endedSpans := endedSpans w @ [(sc, st)]\<rparr>)"

definition otelgin :: "TracerProvider \<Rightarrow> handler \<Rightarrow> handler" where
  "otelgin tp next c w =
     (let saved = Span c; sc = startSpan tp c in
      case next ((Set_key ''otel-go-contrib-tracer'' KTracer c)\<lparr>Span := sc\<rparr>) w of
        Inl p \<Rightarrow> Inl p
      | Inr (c', w') \<Rightarrow> Inr (c'\<lparr>Span := saved\<rparr>, endSpan tp sc (Status c') w'))"

text \<open>
  The router's middleware. \<^verbatim>\<open>router.Use\<close> appends a middleware to the router's
  list, and a request runs the list in order, each middleware with the rest of the list
  and then the route's handler as what its \<^verbatim>\<open>c.Next()\<close> runs. \<^verbatim>\<open>main\<close> makes
  three \<^verbatim>\<open>router.Use\<close> calls. (\<^verbatim>\<open>gin.Default()\<close> has put gin's own access log and
  panic recovery in front of them; they touch nothing modelled here and are left out.)
\<close>

datatype middleware = OtelGin TracerProvider | StructuredLog Logger | Prometheus

fun runMiddleware :: "middleware \<Rightarrow> handler \<Rightarrow> handler" where
  "runMiddleware (OtelGin tp) = otelgin tp"
| "runMiddleware (StructuredLog logger) = structuredLogMiddleware logger"
| "runMiddleware Prometheus = prometheusMiddleware"

definition Use :: "middleware \<Rightarrow> middleware list \<Rightarrow> middleware list" where
  "Use m router = router @ [m]"

definition mainRouter :: "TracerProvider \<Rightarrow> Logger \<Rightarrow> middleware list" where
  "mainRouter tp logger = Use Prometheus (Use (StructuredLog logger) (Use (OtelGin tp) []))"

definition pipeline :: "TracerProvider \<Rightarrow> Logger \<Rightarrow> handler \<Rightarrow> handler" where
  "pipeline tp logger h = foldr runMiddleware (mainRouter tp logger) h"

section \<open>Start-up\<close>

text \<open>
  What the environment answers during start-up: the error, if any, of creating the log
  directory and of opening the log file, whether the trace collector can be reached, the
  error, if any, of creating the exporter and the resource and of \<^verbatim>\<open>router.Run\<close>
  (which returns only with an error), and the identifier source of the tracer provider.
\<close>

record startup_env =
  MkdirAll_err :: "go_error option"
  OpenFile_err :: "go_error option"
  collectorReachable :: bool
  Exporter_err :: "go_error option"
  Resource_err :: "go_error option"
  Run_err :: "go_error option"
  idSource :: "Context \<Rightarrow> SpanContext"

text \<open>\<^verbatim>\<open>newSlogLogger\<close> of the variant that writes to standard output and a file.\<close>

definition newSlogLogger :: "startup_env \<Rightarrow> go_error + Logger" where
  "newSlogLogger env =
     (case MkdirAll_err env of
        Some err \<Rightarrow> Inl (Wrapf ''failed to create logs directory'' err)
      | None \<Rightarrow>
          (case OpenFile_err env of
             Some err \<Rightarrow> Inl (Wrapf ''failed to open log file'' err)
           | None \<Rightarrow> Inr \<lparr>writers = [Stdout, LogFile], attrs = []\<rparr>))"

text \<open>
  \<^verbatim>\<open>grpc.DialContext\<close> as \<^verbatim>\<open>initTracer\<close> calls it: with \<^verbatim>\<open>grpc.WithBlock()\<close> and
  \<^verbatim>\<open>context.Background()\<close>. A blocking dial returns once the connection is up, and
  gives up only when its context is done; this context has no deadline and is never
  cancelled. So the call returns the connection when the collector can be reached and
  does not return at all when it cannot: \<open>None\<close> is the call that never returns. With
  these arguments it has no error to return, and the branch of \<^verbatim>\<open>initTracer\<close> for
  its error, kept below, is never taken.
\<close>

definition DialContext :: "startup_env \<Rightarrow> (go_error + unit) option" where
  "DialContext env = (if collectorReachable env then Some (Inr ()) else None)"

definition initTracer :: "startup_env \<Rightarrow> (go_error + TracerProvider) option" where
  "initTracer env =
     (case DialContext env of
        None \<Rightarrow> None
      | Some (Inl err) \<Rightarrow> Some (Inl (Wrapf ''failed to create gRPC connection'' err))
      | Some (Inr conn) \<Rightarrow>
          (case Exporter_err env of
             Some err \<Rightarrow> Some (Inl (Wrapf ''failed to create OTLP exporter'' err))
           | None \<Rightarrow>
               (case Resource_err env of
                  Some err \<Rightarrow> Some (Inl (Wrapf ''failed to create resource'' err))
                | None \<Rightarrow> Some (Inr (SdkProvider (idSource env))))))"

text \<open>
  \<^verbatim>\<open>main\<close>. The process exits with a code, is left serving, or is left blocked in
  \<^verbatim>\<open>initTracer\<close>, which it called before it created the router; \<open>serving\<close> is the
  middleware of the router that was started (none when \<^verbatim>\<open>router.Run\<close> was never
  reached), \<open>stderr\<close> what was printed to standard error, \<open>state\<close> the process
  state with the log lines written.
\<close>

datatype outcome = Serving | Exited int | BlockedInDial

record process =
  outcome :: outcome
  serving :: "middleware list option"
  stderr :: "go_error list"
  state :: world

definition main :: "startup_env \<Rightarrow> world \<Rightarrow> process" where
  "main env w =
     (case newSlogLogger env of
        Inl err \<Rightarrow> \<lparr>outcome = Exited 1, serving = None, stderr = [err], state = w\<rparr>
      | Inr logger \<Rightarrow>
          (case initTracer env of
             None \<Rightarrow> \<lparr>outcome = BlockedInDial, serving = None, stderr = [], state = w\<rparr>
           | Some traced \<Rightarrow>
               (let tp = (case traced of Inl err \<Rightarrow> NoopProvider | Inr tp \<Rightarrow> tp);
                    w1 = (case traced of
                            Inl err \<Rightarrow>
                              emit logger LevelError ''Failed to initialize tracer''
                                [(''error'', GoError err)] w
                          | Inr tp \<Rightarrow>
                              emit logger LevelInfo ''Tracer initialized successfully'' [] w);
                    w2 = emit logger LevelInfo ''Starting server on port 5060...'' [] w1
                in case Run_err env of
                     None \<Rightarrow>
                       \<lparr>outcome = Serving, serving = Some (mainRouter tp logger), stderr = [],
                        state = w2\<rparr>
                   | Some err \<Rightarrow>
                       \<lparr>outcome = Exited 1, serving = Some (mainRouter tp logger), stderr = [],
                        state = emit logger LevelError ''Failed to start server''
                                  [(''error'', GoError err)] w2\<rparr>)))"

section \<open>Requests and observations\<close>

text \<open>
  The context gin hands to the chain for a request: no keys, no span, and the writer's
  status at 200, or at 404 when no route matched (gin sets it before it runs the chain,
  which then ends after the middleware: \<open>noRoute\<close>). \<open>initialWorld\<close> is the package-level
  state once the variable declarations and \<^verbatim>\<open>init\<close> have run.
\<close>

definition requestContext ::
  "string \<Rightarrow> string \<Rightarrow> (string \<times> string) list \<Rightarrow> (string \<times> string) list \<Rightarrow> string \<Rightarrow> Context" where
  "requestContext m route ps q b =
     \<lparr>Method = m, FullPath = route, Params = ps, Query = q, Body = b,
      Span = \<lparr>TraceID = 0, SpanID = 0\<rparr>, Keys = Map.empty,
      Status = (if route = [] then 404 else 200), Response = None\<rparr>"

definition noRoute :: handler where
  "noRoute c w = Inr (c, w)"

definition initialWorld :: world where
  "initialWorld =
     \<lparr>httpRequestsTotal = (\<lambda>k. 0), httpRequestDuration = (\<lambda>k. []),
      itemOperationsTotal = (\<lambda>k. 0), searchRequestsTotal = 0, searchResultsCount = [],
      fakeItemsDB = fakeItemsDB_init, allItems = allItems_init,
      stdout = [], logfile = [], now = 0, endedSpans = []\<rparr>"

text \<open>What the client receives: the status and the body, or nothing after a panic.\<close>

definition reply :: "panic + Context \<times> world \<Rightarrow> panic + int \<times> row option" where
  "reply r = (case r of Inl p \<Rightarrow> Inl p | Inr (c, w) \<Rightarrow> Inr (Status c, Response c))"

text \<open>
  The tests of the search loop as predicates on a row: a row is well typed when both
  assertions succeed on it, \<open>rowMatches\<close> is the loop's condition and \<open>rowNameMatches\<close>
  its name half alone.
\<close>

definition wellTypedRow :: "row \<Rightarrow> bool" where
  "wellTypedRow item =
     (case assertString (map_of item ''name'') of
        Inl p \<Rightarrow> False
      | Inr n \<Rightarrow> (case assertFloat64 (map_of item ''price'') of Inl p \<Rightarrow> False | Inr x \<Rightarrow> True))"

definition rowMatches :: "go_lib \<Rightarrow> string \<Rightarrow> f64 \<Rightarrow> row \<Rightarrow> bool" where
  "rowMatches L name minPrice item =
     (case assertString (map_of item ''name'') of
        Inl p \<Rightarrow> False
      | Inr n \<Rightarrow>
          (case assertFloat64 (map_of item ''price'') of
             Inl p \<Rightarrow> False
           | Inr x \<Rightarrow> nameMatch L name n \<and> f64_ge x minPrice))"

definition rowNameMatches :: "go_lib \<Rightarrow> string \<Rightarrow> row \<Rightarrow> bool" where
  "rowNameMatches L name item =
     (case assertString (map_of item ''name'') of
        Inl p \<Rightarrow> False
      | Inr n \<Rightarrow> nameMatch L name n)"

text \<open>The log lines a request added to a sink.\<close>

definition newLines :: "log_line list \<Rightarrow> log_line list \<Rightarrow> log_line list" where
  "newLines before after = drop (length before) after"

text \<open>
  A line written through a logger starts with that logger's attributes (the call's own
  arguments follow them).
\<close>

definition writtenBy :: "Logger \<Rightarrow> log_line list \<Rightarrow> bool" where
  "writtenBy lg lines = list_all (\<lambda>ln. take (length (attrs lg)) (line_fields ln) = attrs lg) lines"

section \<open>Auxiliary facts\<close>

lemma Itoa_404: "Itoa 404 = ''404''"
  by code_simp

lemma searchLoop_filter:
  "list_all wellTypedRow items \<Longrightarrow>
   searchLoop L name mp items acc = Inr (acc @ filter (rowMatches L name mp) items)"
proof (induction items arbitrary: acc)
  case Nil
  then show ?case by simp
next
  case (Cons item rest)
  then show ?case
    by (simp add: wellTypedRow_def rowMatches_def split: sum.splits)
qed

lemma allItems_init_wellTyped: "list_all wellTypedRow allItems_init"
  by (simp add: allItems_init_def wellTypedRow_def assertString_def assertFloat64_def)

lemma newLines_append [simp]: "newLines xs (xs @ ys) = ys"
  by (simp add: newLines_def)

lemma newLines_same [simp]: "newLines xs xs = []"
  by (simp add: newLines_def)

lemma newLines_append2 [simp]: "newLines xs ((xs @ ys) @ zs) = ys @ zs"
  by (simp add: newLines_def)

lemma stdout_emit:
  "stdout (emit lg lv m args w) =
     stdout w @ (if Stdout \<in> set (writers lg) then [render lg lv m args] else [])"
  by (simp add: emit_def)

lemma logfile_emit:
  "logfile (emit lg lv m args w) =
     logfile w @ (if LogFile \<in> set (writers lg) then [render lg lv m args] else [])"
  by (simp add: emit_def)

lemma emit_frame [simp]:
  "httpRequestsTotal (emit lg lv m args w) = httpRequestsTotal w"
  "httpRequestDuration (emit lg lv m args w) = httpRequestDuration w"
  "itemOperationsTotal (emit lg lv m args w) = itemOperationsTotal w"
  "searchRequestsTotal (emit lg lv m args w) = searchRequestsTotal w"
  "searchResultsCount (emit lg lv m args w) = searchResultsCount w"
  "fakeItemsDB (emit lg lv m args w) = fakeItemsDB w"
  "allItems (emit lg lv m args w) = allItems w"
  "now (emit lg lv m args w) = now w"
  "endedSpans (emit lg lv m args w) = endedSpans w"
  by (simp_all add: emit_def)

lemma Inc_frame [simp]:
  "stdout (itemOperationsTotal_Inc a b w) = stdout w"
  "logfile (itemOperationsTotal_Inc a b w) = logfile w"
  "fakeItemsDB (itemOperationsTotal_Inc a b w) = fakeItemsDB w"
  "allItems (itemOperationsTotal_Inc a b w) = allItems w"
  by (simp_all add: itemOperationsTotal_Inc_def)

lemma getLogger_Set_key: "getLogger (Set_key ''logger'' (KLogger lg) c) = Inr lg"
  by (simp add: getLogger_def Set_key_def)

subsection \<open>Every handler writes its lines through the logger it was given\<close>

lemma writtenBy_emit:
  "writtenBy lg (newLines (stdout w) (stdout (emit lg lv m args w)))"
  "writtenBy lg (newLines (logfile w) (logfile (emit lg lv m args w)))"
  by (simp_all add: writtenBy_def stdout_emit logfile_emit render_def)

lemma readRoot_lines:
  assumes "getLogger c = Inr lg"
  shows "\<exists>c' w'. readRoot c w = Inr (c', w') \<and>
           writtenBy lg (newLines (stdout w) (stdout w')) \<and>
           writtenBy lg (newLines (logfile w) (logfile w'))"
  using assms by (simp add: readRoot_def writtenBy_emit)

lemma getStatus_lines:
  assumes "getLogger c = Inr lg"
  shows "\<exists>c' w'. getStatus c w = Inr (c', w') \<and>
           writtenBy lg (newLines (stdout w) (stdout w')) \<and>
           writtenBy lg (newLines (logfile w) (logfile w'))"
  using assms by (simp add: getStatus_def writtenBy_emit)

lemma getError500_lines:
  assumes "getLogger c = Inr lg"
  shows "\<exists>c' w'. getError500 c w = Inr (c', w') \<and>
           writtenBy lg (newLines (stdout w) (stdout w')) \<and>
           writtenBy lg (newLines (logfile w) (logfile w'))"
  using assms by (simp add: getError500_def writtenBy_emit)

lemma getError400_lines:
  assumes "getLogger c = Inr lg"
  shows "\<exists>c' w'. getError400 c w = Inr (c', w') \<and>
           writtenBy lg (newLines (stdout w) (stdout w')) \<and>
           writtenBy lg (newLines (logfile w) (logfile w'))"
  using assms by (simp add: getError400_def writtenBy_emit)

lemma readItem_lines:
  assumes "getLogger c = Inr lg"
  shows "\<exists>c' w'. readItem c w = Inr (c', w') \<and>
           writtenBy lg (newLines (stdout w) (stdout w')) \<and>
           writtenBy lg (newLines (logfile w) (logfile w'))"
  using assms by (simp add: readItem_def writtenBy_emit Let_def split: sum.splits option.splits)

lemma createItem_lines:
  assumes "getLogger c = Inr lg"
  shows "\<exists>c' w'. createItem L c w = Inr (c', w') \<and>
           writtenBy lg (newLines (stdout w) (stdout w')) \<and>
           writtenBy lg (newLines (logfile w) (logfile w'))"
  using assms by (simp add: createItem_def writtenBy_emit split: sum.splits)

lemma searchItems_lines:
  assumes "getLogger c = Inr lg" and "allItems w = allItems_init"
  shows "\<exists>c' w'. searchItems L c w = Inr (c', w') \<and>
           writtenBy lg (newLines (stdout w) (stdout w')) \<and>
           writtenBy lg (newLines (logfile w) (logfile w'))"
proof (cases "snd (ParseFloat L (DefaultQuery c ''min_price'' ''0''))")
  case None
  with assms show ?thesis
    by (simp add: searchItems_def Let_def searchLoop_filter allItems_init_wellTyped
        writtenBy_def stdout_emit logfile_emit render_def)
next
  case (Some err)
  with assms show ?thesis
    by (simp add: searchItems_def Let_def searchLoop_filter allItems_init_wellTyped
        writtenBy_def stdout_emit logfile_emit render_def)
qed

lemma apiRoutes_lines:
  assumes "(r, h) \<in> set (apiRoutes L)" and "getLogger c = Inr lg"
    and "allItems w = allItems_init"
  shows "\<exists>c' w'. h c w = Inr (c', w') \<and>
           writtenBy lg (newLines (stdout w) (stdout w')) \<and>
           writtenBy lg (newLines (logfile w) (logfile w'))"
proof -
  from assms(1) consider "h = readRoot" | "h = readItem" | "h = searchItems L"
    | "h = createItem L" | "h = getStatus" | "h = getError500" | "h = getError400"
    by (auto simp add: apiRoutes_def)
  then show ?thesis
    using assms(2,3)
    by cases (simp_all add: readRoot_lines readItem_lines searchItems_lines createItem_lines
        getStatus_lines getError500_lines getError400_lines)
qed

lemma prometheusMiddleware_lines:
  assumes "next c w = Inr (c', w')"
  shows "\<exists>w''. prometheusMiddleware next c w = Inr (c', w'') \<and>
           stdout w'' = stdout w' \<and> logfile w'' = logfile w'"
  using assms by (simp add: prometheusMiddleware_def Let_def)

lemma Itoa_500: "Itoa 500 = ''500''"
  by code_simp

lemma Set_key_frame [simp]:
  "Method (Set_key k v c) = Method c" "FullPath (Set_key k v c) = FullPath c"
  "Params (Set_key k v c) = Params c" "Query (Set_key k v c) = Query c"
  "Body (Set_key k v c) = Body c" "Span (Set_key k v c) = Span c"
  "Status (Set_key k v c) = Status c" "Response (Set_key k v c) = Response c"
  by (simp_all add: Set_key_def)

lemma chain_run:
  assumes "h (Set_key ''logger'' (KLogger (requestLogger logger (Span c))) c) w = Inr (c', w')"
  shows "\<exists>w''. structuredLogMiddleware logger (prometheusMiddleware h) c w = Inr (c', w'') \<and>
           itemOperationsTotal w'' = itemOperationsTotal w' \<and>
           searchRequestsTotal w'' = searchRequestsTotal w' \<and>
           searchResultsCount w'' = searchResultsCount w' \<and>
           fakeItemsDB w'' = fakeItemsDB w' \<and> allItems w'' = allItems w' \<and>
           stdout w'' = stdout w' \<and> logfile w'' = logfile w'"
  using assms by (simp add: structuredLogMiddleware_def prometheusMiddleware_def Let_def)

lemma ToLower_names:
  "ToLower u ''laptop'' = ''laptop''" "ToLower u ''mouse'' = ''mouse''"
  "ToLower u ''keyboard'' = ''keyboard''" "ToLower u ''monitor'' = ''monitor''"
  "ToLower u ''webcam'' = ''webcam''"
  by (simp_all add: ToLower_def isASCII_def lower_byte_def)

lemma filter_laptop_100:
  "filter (rowMatches L ''laptop'' (Finite 100)) allItems_init
     = [[(''name'', GoString ''laptop''), (''price'', GoFloat (Finite 1200))]]"
  by (simp add: allItems_init_def rowMatches_def assertString_def assertFloat64_def nameMatch_def
      ToLower_names)

subsection \<open>The handlers on the scenario requests\<close>

lemma searchItems_laptop:
  assumes pf: "ParseFloat L ''100'' = (Finite 100, None)"
    and name: "map_of (Query c) ''name'' = Some ''laptop''"
    and price: "map_of (Query c) ''min_price'' = Some ''100''"
    and items: "allItems w = allItems_init"
    and lg: "getLogger c = Inr lg"
  shows "\<exists>c' w'. searchItems L c w = Inr (c', w') \<and>
      Status c' = 200 \<and>
      Response c' = Some [(''search_results'',
                     GoSlice [GoMap [(''name'', GoString ''laptop''), (''price'', GoFloat (Finite 1200))]])] \<and>
      searchRequestsTotal w' = Suc (searchRequestsTotal w) \<and>
      searchResultsCount w' = searchResultsCount w @ [Finite 1]"
  using assms
  by (simp add: searchItems_def Let_def Query_get_def DefaultQuery_def searchLoop_filter
      allItems_init_wellTyped filter_laptop_100 JSON_def)

lemma readItem_1:
  assumes "Param c ''item_id'' = ''1''" and "fakeItemsDB w = fakeItemsDB_init"
    and "getLogger c = Inr lg"
  shows "\<exists>c' w'. readItem c w = Inr (c', w') \<and> Status c' = 200 \<and>
     Response c' = Some [(''item_id'', GoInt 1), (''name'', GoString ''laptop''),
                         (''price'', GoFloat (Finite 1200))] \<and>
     itemOperationsTotal w' (''read'', ''success'') = Suc (itemOperationsTotal w (''read'', ''success'')) \<and>
     (\<forall>k. k \<noteq> (''read'', ''success'') \<longrightarrow> itemOperationsTotal w' k = itemOperationsTotal w k)"
proof -
  have "Atoi ''1'' = Inr 1"
    by (simp add: Atoi_def is_digit_def)
  with assms show ?thesis
    by (simp add: readItem_def Let_def fakeItemsDB_init_def JSON_def itemOperationsTotal_Inc_def Inc_def)
qed

lemma createItem_missing_price:
  assumes "\<forall>it. Unmarshal L (Body c) = Inr it \<longrightarrow> Price it = Finite 0"
    and "getLogger c = Inr lg"
  shows "\<exists>c' w'. createItem L c w = Inr (c', w') \<and> Status c' = 400 \<and>
     itemOperationsTotal w' (''create'', ''bad_request'')
       = Suc (itemOperationsTotal w (''create'', ''bad_request'')) \<and>
     (\<forall>k. k \<noteq> (''create'', ''bad_request'') \<longrightarrow> itemOperationsTotal w' k = itemOperationsTotal w k)"
proof (cases "Unmarshal L (Body c)")
  case (Inl err)
  with assms(2) show ?thesis
    by (simp add: createItem_def ShouldBindJSON_def JSON_def itemOperationsTotal_Inc_def Inc_def)
next
  case (Inr it)
  with assms(1) have "Price it = Finite 0" by blast
  then have "validateItem it \<noteq> None"
    by (simp add: validateItem_def Let_def)
  then obtain err where "validateItem it = Some err" by blast
  with Inr assms(2) show ?thesis
    by (simp add: createItem_def ShouldBindJSON_def JSON_def itemOperationsTotal_Inc_def Inc_def)
qed

lemma filter_price_zero:
  "filter (rowMatches L name (Finite 0)) allItems_init = filter (rowNameMatches L name) allItems_init"
  by (simp add: allItems_init_def rowMatches_def rowNameMatches_def assertString_def assertFloat64_def)

subsection \<open>What a reply depends on\<close>

lemma reply_readItem_store:
  assumes "fakeItemsDB w1 = fakeItemsDB w2"
  shows "reply (readItem c w1) = reply (readItem c w2)"
  using assms
  by (simp add: readItem_def reply_def Let_def split: sum.splits option.splits)

lemma reply_searchItems_store:
  assumes "allItems w1 = allItems w2"
  shows "reply (searchItems L c w1) = reply (searchItems L c w2)"
  using assms
  by (simp add: searchItems_def reply_def Let_def split: sum.splits option.splits)

lemma reply_prometheusMiddleware:
  "reply (prometheusMiddleware h c w) = reply (h c w)"
  by (simp add: prometheusMiddleware_def reply_def Let_def split: sum.splits prod.splits)

lemma createItem_store:
  assumes "getLogger c = Inr lg"
  shows "\<exists>c' w'. createItem L c w = Inr (c', w') \<and>
           fakeItemsDB w' = fakeItemsDB w \<and> allItems w' = allItems w"
  using assms by (simp add: createItem_def split: sum.splits)

subsection \<open>No handler changes the item tables\<close>

lemma apiRoutes_store:
  assumes "(r, h) \<in> set (apiRoutes L)" and "h c w = Inr (c', w')"
  shows "fakeItemsDB w' = fakeItemsDB w \<and> allItems w' = allItems w"
proof -
  from assms(1) consider "h = readRoot" | "h = readItem" | "h = searchItems L"
    | "h = createItem L" | "h = getStatus" | "h = getError500" | "h = getError400"
    by (auto simp add: apiRoutes_def)
  then show ?thesis
  proof cases
    case 1
    with assms(2) show ?thesis
      by (auto simp add: readRoot_def split: sum.splits)
  next
    case 2
    with assms(2) show ?thesis
      by (auto simp add: readItem_def Let_def split: sum.splits option.splits)
  next
    case 3
    with assms(2) show ?thesis
      by (auto simp add: searchItems_def Let_def split: sum.splits option.splits)
  next
    case 4
    with assms(2) show ?thesis
      by (auto simp add: createItem_def split: sum.splits)
  next
    case 5
    with assms(2) show ?thesis
      by (auto simp add: getStatus_def split: sum.splits)
  next
    case 6
    with assms(2) show ?thesis
      by (auto simp add: getError500_def split: sum.splits)
  next
    case 7
    with assms(2) show ?thesis
      by (auto simp add: getError400_def split: sum.splits)
  qed
qed

lemma pipeline_unfold:
  "pipeline tp logger h = otelgin tp (structuredLogMiddleware logger (prometheusMiddleware h))"
  by (simp add: pipeline_def mainRouter_def Use_def)

lemma pipeline_store:
  assumes "(r, h) \<in> set (apiRoutes L)" and "pipeline tp logger h c w = Inr (c', w')"
  shows "fakeItemsDB w' = fakeItemsDB w \<and> allItems w' = allItems w"
proof -
  let ?c1 = "Set_key ''logger'' (KLogger (requestLogger logger (startSpan tp c)))
               ((Set_key ''otel-go-contrib-tracer'' KTracer c)\<lparr>Span := startSpan tp c\<rparr>)"
  from assms(2) obtain c2 w2 where h: "h ?c1 w = Inr (c2, w2)"
    and w': "fakeItemsDB w' = fakeItemsDB w2" "allItems w' = allItems w2"
    by (auto simp add: pipeline_unfold otelgin_def structuredLogMiddleware_def
        prometheusMiddleware_def Let_def endSpan_def
        split: sum.splits prod.splits TracerProvider.splits)
  from apiRoutes_store [OF assms(1) h] w' show ?thesis by simp
qed

subsection \<open>The hexadecimal rendering determines the identifier\<close>

lemma hexdigit_inj:
  assumes "a < 16" and "b < 16" and "hexdigit a = hexdigit b"
  shows "a = b"
proof -
  have "(of_char (hexdigit a) :: nat) = of_char (hexdigit b)"
    using assms(3) by simp
  with assms(1,2) show ?thesis
    by (auto simp add: hexdigit_def split: if_splits)
qed

lemma hex_of_inj:
  "v < 16 ^ k \<Longrightarrow> v' < 16 ^ k \<Longrightarrow> hex_of k v = hex_of k v' \<Longrightarrow> v = v'"
proof (induction k arbitrary: v v')
  case 0
  then show ?case by simp
next
  case (Suc k)
  from Suc.prems(3) have hi: "hex_of k (v div 16) = hex_of k (v' div 16)"
    and lo: "hexdigit (v mod 16) = hexdigit (v' mod 16)"
    by simp_all
  from Suc.prems(1,2) have "v div 16 < 16 ^ k" "v' div 16 < 16 ^ k"
    by (simp_all add: less_mult_imp_div_less mult.commute)
  then have d: "v div 16 = v' div 16"
    using hi by (intro Suc.IH)
  from lo have m: "v mod 16 = v' mod 16"
    by (rule hexdigit_inj [rotated 2]) simp_all
  from d m show ?case
    by (metis div_mult_mod_eq)
qed

lemma TraceID_String_inj: "TraceID_String a = TraceID_String b \<Longrightarrow> a = b"
proof -
  assume eq: "TraceID_String a = TraceID_String b"
  have "unat a < 16 ^ 32" "unat b < 16 ^ 32"
    using unsigned_less [of a] unsigned_less [of b] by simp_all
  with eq have "unat a = unat b"
    unfolding TraceID_String_def by (rule hex_of_inj [rotated 2])
  then show ?thesis by (rule word_unat_eq_iff [THEN iffD2])
qed

lemma SpanID_String_inj: "SpanID_String a = SpanID_String b \<Longrightarrow> a = b"
proof -
  assume eq: "SpanID_String a = SpanID_String b"
  have "unat a < 16 ^ 16" "unat b < 16 ^ 16"
    using unsigned_less [of a] unsigned_less [of b] by simp_all
  with eq have "unat a = unat b"
    unfolding SpanID_String_def by (rule hex_of_inj [rotated 2])
  then show ?thesis by (rule word_unat_eq_iff [THEN iffD2])
qed

subsection \<open>Start-up\<close>

text \<open>
  What start-up does on its other paths. An unreachable collector blocks it whatever
  else the environment answers. A log file that cannot be opened ends it with exit code
  1 before anything is logged or started. When \<^verbatim>\<open>initTracer\<close> does return an error
  (the exporter or the resource could not be created), one line reports it and the
  router is started without a tracer provider.
\<close>

lemma initTracer_blocks: "initTracer env = None \<longleftrightarrow> \<not> collectorReachable env"
  by (simp add: initTracer_def DialContext_def split: option.splits)

lemma main_blocked_in_dial:
  assumes "newSlogLogger env = Inr lg" and "\<not> collectorReachable env"
  shows "outcome (main env w) = BlockedInDial \<and> serving (main env w) = None \<and>
         state (main env w) = w"
  using assms by (simp add: main_def initTracer_def DialContext_def)

lemma main_log_file_fatal:
  assumes "MkdirAll_err env = None" and "OpenFile_err env = Some e"
  shows "outcome (main env w) = Exited 1 \<and> serving (main env w) = None \<and>
         stderr (main env w) = [Wrapf ''failed to open log file'' e] \<and> state (main env w) = w"
  using assms by (simp add: main_def newSlogLogger_def)

lemma main_tracer_error_logged_once:
  assumes "newSlogLogger env = Inr lg" and "initTracer env = Some (Inl e')"
  shows "serving (main env w) = Some [OtelGin NoopProvider, StructuredLog lg, Prometheus] \<and>
         filter (\<lambda>ln. line_msg ln = ''Failed to initialize tracer'')
                (newLines (stdout w) (stdout (state (main env w))))
           = [render lg LevelError ''Failed to initialize tracer'' [(''error'', GoError e')]]"
proof -
  from assms(1) have "writers lg = [Stdout, LogFile]"
    by (auto simp add: newSlogLogger_def split: option.splits)
  with assms show ?thesis
    by (auto simp add: main_def Let_def stdout_emit render_def mainRouter_def Use_def
        split: option.splits)
qed

section \<open>The claims\<close>

text \<open>
  Claim C1, with the label the code writes for an unmatched route. Whenever the rest of
  the chain returns, the metrics middleware
  returns too, appends exactly one observation (the elapsed time) to the duration
  histogram under the request's method and route label, adds exactly one to the request
  counter under method, route label and status, and leaves every other label set of both
  collectors as the rest of the chain left it. The route label is the matched route
  template, and \<^verbatim>\<open>"none"\<close> when no route matched.
\<close>

theorem prometheusMiddleware_records_once:
  assumes "next c w = Inr (c', w')"
  shows "\<exists>w''. prometheusMiddleware next c w = Inr (c', w'') \<and>
     httpRequestDuration w'' (Method c', routeLabel c')
       = httpRequestDuration w' (Method c', routeLabel c') @ [now w' - now w] \<and>
     (\<forall>k. k \<noteq> (Method c', routeLabel c') \<longrightarrow>
          httpRequestDuration w'' k = httpRequestDuration w' k) \<and>
     httpRequestsTotal w'' (Method c', routeLabel c', Itoa (Status c'))
       = Suc (httpRequestsTotal w' (Method c', routeLabel c', Itoa (Status c'))) \<and>
     (\<forall>k. k \<noteq> (Method c', routeLabel c', Itoa (Status c')) \<longrightarrow>
          httpRequestsTotal w'' k = httpRequestsTotal w' k) \<and>
     routeLabel c' = (if FullPath c' = [] then ''none'' else FullPath c')"
  using assms
  by (simp add: prometheusMiddleware_def Let_def Inc_def Observe_def routeLabel_def)

theorem prometheusMiddleware_records_once_witness:
  "\<exists>w''. prometheusMiddleware noRoute (requestContext ''GET'' [] [] [] []) initialWorld
            = Inr (requestContext ''GET'' [] [] [] [], w'') \<and>
     httpRequestDuration w'' (''GET'', ''none'') = [0] \<and>
     httpRequestsTotal w'' (''GET'', ''none'', ''404'') = 1"
proof -
  let ?c = "requestContext ''GET'' [] [] [] []"
  have run: "noRoute ?c initialWorld = Inr (?c, initialWorld)"
    by (simp add: noRoute_def)
  have lbl: "routeLabel ?c = ''none''" "Method ?c = ''GET''" "Itoa (Status ?c) = ''404''"
    by (simp_all add: routeLabel_def requestContext_def Itoa_404)
  from prometheusMiddleware_records_once [of noRoute ?c initialWorld ?c initialWorld] run
  show ?thesis
    unfolding lbl by (auto simp add: initialWorld_def)
qed

text \<open>
  Claim C1 as stated fails on the sentinel: a request that matched no route is counted
  under the route label \<^verbatim>\<open>"none"\<close>, and nothing is recorded under
  \<^verbatim>\<open>"unmatched"\<close>.
\<close>

theorem unmatched_label_counterexample:
  "\<not> isl (prometheusMiddleware noRoute (requestContext ''GET'' [] [] [] []) initialWorld) \<and>
   httpRequestsTotal
      (snd (projr (prometheusMiddleware noRoute (requestContext ''GET'' [] [] [] []) initialWorld)))
      (''GET'', ''unmatched'', ''404'') = 0 \<and>
   httpRequestsTotal
      (snd (projr (prometheusMiddleware noRoute (requestContext ''GET'' [] [] [] []) initialWorld)))
      (''GET'', ''none'', ''404'') = 1 \<and>
   httpRequestDuration
      (snd (projr (prometheusMiddleware noRoute (requestContext ''GET'' [] [] [] []) initialWorld)))
      (''GET'', ''unmatched'') = [] \<and>
   httpRequestDuration
      (snd (projr (prometheusMiddleware noRoute (requestContext ''GET'' [] [] [] []) initialWorld)))
      (''GET'', ''none'') = [0]"
  by (simp add: prometheusMiddleware_def noRoute_def requestContext_def initialWorld_def
      Let_def Inc_def Observe_def routeLabel_def Itoa_404)

text \<open>
  Claim C2. For a request that reaches the logger binder with a valid span, on any of the
  API routes, the chain returns, and every line it added to standard output or to the log
  file carries a \<^verbatim>\<open>trace_id\<close> and a \<^verbatim>\<open>span_id\<close> field equal to the span's trace
  and span identifier (in their hexadecimal rendering). The base logger is the one
  \<^verbatim>\<open>main\<close> builds, which has no attributes of its own, and the item table is the
  initial one, which no handler changes.
\<close>

theorem bound_logger_lines_carry_span_ids:
  assumes valid: "IsValid (Span c)" and base: "attrs logger = []"
    and route: "(r, h) \<in> set (apiRoutes L)" and items: "allItems w = allItems_init"
  shows "\<exists>c' w'. structuredLogMiddleware logger (prometheusMiddleware h) c w = Inr (c', w') \<and>
      (\<forall>ln \<in> set (newLines (stdout w) (stdout w')) \<union> set (newLines (logfile w) (logfile w')).
          map_of (line_fields ln) ''trace_id'' = Some (GoString (TraceID_String (TraceID (Span c)))) \<and>
          map_of (line_fields ln) ''span_id'' = Some (GoString (SpanID_String (SpanID (Span c)))))"
proof -
  define lg where "lg = requestLogger logger (Span c)"
  define c1 where "c1 = Set_key ''logger'' (KLogger lg) c"
  have mw: "structuredLogMiddleware logger (prometheusMiddleware h) c w = prometheusMiddleware h c1 w"
    by (simp add: structuredLogMiddleware_def lg_def c1_def)
  have "getLogger c1 = Inr lg"
    by (simp add: c1_def getLogger_Set_key)
  from apiRoutes_lines [OF route this items]
  obtain c' w' where h: "h c1 w = Inr (c', w')"
    and out: "writtenBy lg (newLines (stdout w) (stdout w'))"
    and lfile: "writtenBy lg (newLines (logfile w) (logfile w'))"
    by blast
  from prometheusMiddleware_lines [of h c1 w c' w'] h
  obtain w'' where run: "prometheusMiddleware h c1 w = Inr (c', w'')"
    and same: "stdout w'' = stdout w'" "logfile w'' = logfile w'"
    by blast
  have attrs_lg: "attrs lg = [(''trace_id'', GoString (TraceID_String (TraceID (Span c)))),
                              (''span_id'', GoString (SpanID_String (SpanID (Span c))))]"
    using base valid by (simp add: lg_def requestLogger_def With_def)
  have fields: "map_of (line_fields ln) ''trace_id'' = Some (GoString (TraceID_String (TraceID (Span c)))) \<and>
                map_of (line_fields ln) ''span_id'' = Some (GoString (SpanID_String (SpanID (Span c))))"
    if "ln \<in> set (newLines (stdout w) (stdout w')) \<union> set (newLines (logfile w) (logfile w'))" for ln
  proof -
    from that out lfile have "take (length (attrs lg)) (line_fields ln) = attrs lg"
      by (auto simp add: writtenBy_def list_all_iff)
    then obtain rest where "line_fields ln = attrs lg @ rest"
      by (metis append_take_drop_id)
    then show ?thesis by (simp add: attrs_lg)
  qed
  show ?thesis
    using mw run same fields by auto
qed

theorem bound_logger_lines_carry_span_ids_witness:
  "\<exists>c' w'.
     structuredLogMiddleware \<lparr>writers = [Stdout, LogFile], attrs = []\<rparr>
       (prometheusMiddleware getError500)
       ((requestContext ''GET'' ''/error-500'' [] [] [])
          \<lparr>Span := \<lparr>TraceID = 0x4bf92f3577b34da6a3ce929d0e0e4736, SpanID = 0x00f067aa0ba902b7\<rparr>\<rparr>)
       initialWorld = Inr (c', w') \<and>
     length (stdout w') = 1 \<and> length (logfile w') = 1 \<and>
     list_all (\<lambda>ln. map_of (line_fields ln) ''trace_id''
                       = Some (GoString (TraceID_String 0x4bf92f3577b34da6a3ce929d0e0e4736)) \<and>
                     map_of (line_fields ln) ''span_id''
                       = Some (GoString (SpanID_String 0x00f067aa0ba902b7)))
       (stdout w' @ logfile w')"
proof -
  let ?lg = "\<lparr>writers = [Stdout, LogFile], attrs = []\<rparr>"
  let ?sc = "\<lparr>TraceID = 0x4bf92f3577b34da6a3ce929d0e0e4736, SpanID = 0x00f067aa0ba902b7\<rparr>"
  let ?c = "(requestContext ''GET'' ''/error-500'' [] [] [])\<lparr>Span := ?sc\<rparr>"
  let ?L = "\<lparr>ParseFloat = (\<lambda>s. (Finite 0, Some ErrSyntax)), UnicodeLower = (\<lambda>s. s),
             Unmarshal = (\<lambda>b. Inl (LibError ''EOF''))\<rparr>"
  have valid: "IsValid (Span ?c)"
    by (simp add: IsValid_def)
  have base: "attrs ?lg = []"
    by simp
  have route: "((''GET'', ''/error-500''), getError500) \<in> set (apiRoutes ?L)"
    by (simp add: apiRoutes_def)
  have items: "allItems initialWorld = allItems_init"
    by (simp add: initialWorld_def)
  from bound_logger_lines_carry_span_ids [OF valid base route items]
  obtain c' w' where run: "structuredLogMiddleware ?lg (prometheusMiddleware getError500) ?c initialWorld
                            = Inr (c', w')"
    and ids: "\<forall>ln \<in> set (newLines (stdout initialWorld) (stdout w')) \<union>
                     set (newLines (logfile initialWorld) (logfile w')).
          map_of (line_fields ln) ''trace_id'' = Some (GoString (TraceID_String (TraceID (Span ?c)))) \<and>
          map_of (line_fields ln) ''span_id'' = Some (GoString (SpanID_String (SpanID (Span ?c))))"
    by blast
  have empty: "stdout initialWorld = []" "logfile initialWorld = []"
    by (simp_all add: initialWorld_def)
  from run have len: "length (stdout w') = 1 \<and> length (logfile w') = 1"
    by (auto simp add: structuredLogMiddleware_def prometheusMiddleware_def getError500_def
        getLogger_Set_key Let_def stdout_emit logfile_emit requestLogger_def With_def empty)
  from ids have "list_all (\<lambda>ln. map_of (line_fields ln) ''trace_id''
                       = Some (GoString (TraceID_String 0x4bf92f3577b34da6a3ce929d0e0e4736)) \<and>
                     map_of (line_fields ln) ''span_id''
                       = Some (GoString (SpanID_String 0x00f067aa0ba902b7)))
       (stdout w' @ logfile w')"
    by (simp add: empty newLines_def list_all_iff)
  with run len show ?thesis by blast
qed

text \<open>
  Claim C3. The router's middleware, as \<^verbatim>\<open>main\<close> registers it, is the span
  propagator, the logger binder and the metrics recorder, in this order, and for every
  request, provider, base logger and handler the chain behaves as follows. The span is
  started first and the logger bound second:
  the context the handler receives holds the started span, and its logger is the request
  logger made from that span. The handler is run on that context exactly once, with the
  clock read before it. When it returns, with whatever status, the metrics are recorded
  from its final context (one observation of the elapsed time, one increment under its
  status), then the span is ended with that status and the request's own span restored.
  A panic of the handler passes through.
\<close>

theorem pipeline_order:
  "(let sc = startSpan tp c;
        c1 = Set_key ''logger'' (KLogger (requestLogger logger sc))
               ((Set_key ''otel-go-contrib-tracer'' KTracer c)\<lparr>Span := sc\<rparr>)
    in mainRouter tp logger = [OtelGin tp, StructuredLog logger, Prometheus] \<and>
       Span c1 = sc \<and> getLogger c1 = Inr (requestLogger logger sc) \<and>
       pipeline tp logger h c w =
         (case h c1 w of
            Inl p \<Rightarrow> Inl p
          | Inr (c2, w2) \<Rightarrow>
              Inr (c2\<lparr>Span := Span c\<rparr>,
                   endSpan tp sc (Status c2)
                     (w2\<lparr>httpRequestDuration :=
                            Observe (httpRequestDuration w2) (Method c2, routeLabel c2) (now w2 - now w),
                          httpRequestsTotal :=
                            Inc (httpRequestsTotal w2) (Method c2, routeLabel c2, Itoa (Status c2))\<rparr>))))"
proof -
  define sc where "sc = startSpan tp c"
  define c1 where "c1 = Set_key ''logger'' (KLogger (requestLogger logger sc))
                          ((Set_key ''otel-go-contrib-tracer'' KTracer c)\<lparr>Span := sc\<rparr>)"
  have router: "mainRouter tp logger = [OtelGin tp, StructuredLog logger, Prometheus]"
    by (simp add: mainRouter_def Use_def)
  have span: "Span c1 = sc"
    by (simp add: c1_def Set_key_def)
  have bound: "getLogger c1 = Inr (requestLogger logger sc)"
    by (simp add: c1_def getLogger_Set_key)
  have inner: "structuredLogMiddleware logger (prometheusMiddleware h)
                 ((Set_key ''otel-go-contrib-tracer'' KTracer c)\<lparr>Span := sc\<rparr>) w
                 = prometheusMiddleware h c1 w"
    by (simp add: structuredLogMiddleware_def c1_def)
  have outer: "pipeline tp logger h c w =
                 (case prometheusMiddleware h c1 w of
                    Inl p \<Rightarrow> Inl p
                  | Inr (c3, w3) \<Rightarrow> Inr (c3\<lparr>Span := Span c\<rparr>, endSpan tp sc (Status c3) w3))"
    by (simp add: pipeline_def router otelgin_def Let_def sc_def [symmetric] inner)
  have run: "pipeline tp logger h c w =
         (case h c1 w of
            Inl p \<Rightarrow> Inl p
          | Inr (c2, w2) \<Rightarrow>
              Inr (c2\<lparr>Span := Span c\<rparr>,
                   endSpan tp sc (Status c2)
                     (w2\<lparr>httpRequestDuration :=
                            Observe (httpRequestDuration w2) (Method c2, routeLabel c2) (now w2 - now w),
                          httpRequestsTotal :=
                            Inc (httpRequestsTotal w2) (Method c2, routeLabel c2, Itoa (Status c2))\<rparr>)))"
  proof (cases "h c1 w")
    case (Inl p)
    then show ?thesis by (simp add: outer prometheusMiddleware_def)
  next
    case (Inr r)
    then show ?thesis by (cases r) (simp add: outer prometheusMiddleware_def Let_def)
  qed
  from router span bound run show ?thesis
    unfolding Let_def sc_def [symmetric] c1_def [symmetric] by blast
qed

theorem pipeline_order_witness:
  "\<exists>c' w'. pipeline (SdkProvider (\<lambda>c. \<lparr>TraceID = 0x4bf92f3577b34da6a3ce929d0e0e4736,
                                          SpanID = 0x00f067aa0ba902b7\<rparr>))
              \<lparr>writers = [Stdout, LogFile], attrs = []\<rparr> getError500
              (requestContext ''GET'' ''/error-500'' [] [] []) initialWorld = Inr (c', w') \<and>
     Status c' = 500 \<and>
     httpRequestsTotal w' (''GET'', ''/error-500'', ''500'') = 1 \<and>
     httpRequestDuration w' (''GET'', ''/error-500'') = [0] \<and>
     endedSpans w' = [(\<lparr>TraceID = 0x4bf92f3577b34da6a3ce929d0e0e4736,
                        SpanID = 0x00f067aa0ba902b7\<rparr>, 500)] \<and>
     map line_fields (stdout w')
       = [[(''trace_id'', GoString (TraceID_String 0x4bf92f3577b34da6a3ce929d0e0e4736)),
           (''span_id'', GoString (SpanID_String 0x00f067aa0ba902b7))]]"
proof -
  let ?sc = "\<lparr>TraceID = 0x4bf92f3577b34da6a3ce929d0e0e4736, SpanID = 0x00f067aa0ba902b7\<rparr>"
  let ?tp = "SdkProvider (\<lambda>c. ?sc)"
  let ?lg = "\<lparr>writers = [Stdout, LogFile], attrs = []\<rparr>"
  let ?c = "requestContext ''GET'' ''/error-500'' [] [] []"
  let ?c1 = "Set_key ''logger'' (KLogger (requestLogger ?lg ?sc))
               ((Set_key ''otel-go-contrib-tracer'' KTracer ?c)\<lparr>Span := ?sc\<rparr>)"
  have sc: "startSpan ?tp ?c = ?sc"
    by (simp add: startSpan_def)
  have valid: "IsValid ?sc"
    by (simp add: IsValid_def)
  from pipeline_order [of ?tp ?c ?lg getError500 initialWorld]
  have lg: "getLogger ?c1 = Inr (requestLogger ?lg ?sc)"
    and run: "pipeline ?tp ?lg getError500 ?c initialWorld =
         (case getError500 ?c1 initialWorld of
            Inl p \<Rightarrow> Inl p
          | Inr (c2, w2) \<Rightarrow>
              Inr (c2\<lparr>Span := Span ?c\<rparr>,
                   endSpan ?tp ?sc (Status c2)
                     (w2\<lparr>httpRequestDuration :=
                            Observe (httpRequestDuration w2) (Method c2, routeLabel c2)
                              (now w2 - now initialWorld),
                          httpRequestsTotal :=
                            Inc (httpRequestsTotal w2) (Method c2, routeLabel c2, Itoa (Status c2))\<rparr>)))"
    unfolding Let_def sc by blast+
  have h: "getError500 ?c1 initialWorld
             = Inr (JSON 500 [(''detail'', GoString ''Internal Server Error'')] ?c1,
                    emit (requestLogger ?lg ?sc) LevelError ''Simulating 500 Internal Server Error'' []
                      initialWorld)"
    by (simp add: getError500_def lg)
  show ?thesis
    unfolding run h
    by (simp add: JSON_def endSpan_def routeLabel_def Inc_def Observe_def Itoa_500 Set_key_def
        requestContext_def stdout_emit render_def requestLogger_def valid With_def initialWorld_def)
qed

text \<open>
  Claim C4. The logger accessor returns a logger and does not panic: from a context
  where no logger was bound it returns the default standard-output logger, which carries
  no attributes, and from a context where a logger was bound it returns that logger.
\<close>

theorem getLogger_never_panics:
  "(Keys c ''logger'' = None \<longrightarrow> getLogger c = Inr stdoutLogger \<and> attrs stdoutLogger = []) \<and>
   (\<forall>l. Keys c ''logger'' = Some (KLogger l) \<longrightarrow> getLogger c = Inr l)"
  by (simp add: getLogger_def stdoutLogger_def)

theorem getLogger_never_panics_witness:
  "getLogger (requestContext ''GET'' ''/'' [] [] []) = Inr stdoutLogger \<and>
   attrs stdoutLogger = [] \<and>
   getLogger (Set_key ''logger'' (KLogger \<lparr>writers = [Stdout, LogFile], attrs = []\<rparr>)
                (requestContext ''GET'' ''/'' [] [] []))
     = Inr \<lparr>writers = [Stdout, LogFile], attrs = []\<rparr>"
proof -
  let ?c = "requestContext ''GET'' ''/'' [] [] []"
  let ?lg = "\<lparr>writers = [Stdout, LogFile], attrs = []\<rparr>"
  have unbound: "Keys ?c ''logger'' = None"
    by (simp add: requestContext_def)
  have bound: "Keys (Set_key ''logger'' (KLogger ?lg) ?c) ''logger'' = Some (KLogger ?lg)"
    by (simp add: Set_key_def)
  from getLogger_never_panics [of ?c] unbound
  have a: "getLogger ?c = Inr stdoutLogger \<and> attrs stdoutLogger = []"
    by blast
  from getLogger_never_panics [of "Set_key ''logger'' (KLogger ?lg) ?c"] bound
  have b: "getLogger (Set_key ''logger'' (KLogger ?lg) ?c) = Inr ?lg"
    by blast
  from a b show ?thesis by blast
qed

text \<open>
  Claim C5. A request with the query \<^verbatim>\<open>name=laptop&min_price=100\<close> on the search
  handler, given that \<^verbatim>\<open>ParseFloat\<close> reads \<^verbatim>\<open>"100"\<close> as 100 and the item table is
  the initial one: the chain returns with status 200, the results are the laptop row
  alone, \<^verbatim>\<open>search_requests_total\<close> has grown by exactly one, and
  \<^verbatim>\<open>search_results_count\<close> has exactly one more observation, the value 1.
\<close>

theorem search_laptop_min_price_100:
  assumes pf: "ParseFloat L ''100'' = (Finite 100, None)"
    and name: "map_of (Query c) ''name'' = Some ''laptop''"
    and price: "map_of (Query c) ''min_price'' = Some ''100''"
    and items: "allItems w = allItems_init"
  shows "\<exists>c' w'. structuredLogMiddleware logger (prometheusMiddleware (searchItems L)) c w = Inr (c', w') \<and>
      Status c' = 200 \<and>
      Response c' = Some [(''search_results'',
                     GoSlice [GoMap [(''name'', GoString ''laptop''), (''price'', GoFloat (Finite 1200))]])] \<and>
      searchRequestsTotal w' = Suc (searchRequestsTotal w) \<and>
      searchResultsCount w' = searchResultsCount w @ [Finite 1]"
proof -
  let ?c1 = "Set_key ''logger'' (KLogger (requestLogger logger (Span c))) c"
  have "\<exists>c' w'. searchItems L ?c1 w = Inr (c', w') \<and>
      Status c' = 200 \<and>
      Response c' = Some [(''search_results'',
                     GoSlice [GoMap [(''name'', GoString ''laptop''), (''price'', GoFloat (Finite 1200))]])] \<and>
      searchRequestsTotal w' = Suc (searchRequestsTotal w) \<and>
      searchResultsCount w' = searchResultsCount w @ [Finite 1]"
    by (rule searchItems_laptop [OF pf _ _ items getLogger_Set_key]) (simp_all add: name price)
  then obtain c' w' where h: "searchItems L ?c1 w = Inr (c', w')"
    and res: "Status c' = 200"
      "Response c' = Some [(''search_results'',
                     GoSlice [GoMap [(''name'', GoString ''laptop''), (''price'', GoFloat (Finite 1200))]])]"
      "searchRequestsTotal w' = Suc (searchRequestsTotal w)"
      "searchResultsCount w' = searchResultsCount w @ [Finite 1]"
    by blast
  from chain_run [of "searchItems L" logger c w c' w'] h res show ?thesis
    by auto
qed

theorem search_laptop_min_price_100_witness:
  "\<exists>c' w'. structuredLogMiddleware stdoutLogger
       (prometheusMiddleware
          (searchItems \<lparr>ParseFloat = (\<lambda>s. if s = ''100'' then (Finite 100, None)
                                           else (Finite 0, Some (NumError ''ParseFloat'' s ErrSyntax))),
                        UnicodeLower = (\<lambda>s. s),
                        Unmarshal = (\<lambda>b. Inl (LibError ''EOF''))\<rparr>))
       (requestContext ''GET'' ''/search/'' [] [(''name'', ''laptop''), (''min_price'', ''100'')] [])
       initialWorld = Inr (c', w') \<and>
      Status c' = 200 \<and>
      Response c' = Some [(''search_results'',
                     GoSlice [GoMap [(''name'', GoString ''laptop''), (''price'', GoFloat (Finite 1200))]])] \<and>
      searchRequestsTotal w' = 1 \<and>
      searchResultsCount w' = [Finite 1]"
proof -
  let ?L = "\<lparr>ParseFloat = (\<lambda>s. if s = ''100'' then (Finite 100, None)
                                           else (Finite 0, Some (NumError ''ParseFloat'' s ErrSyntax))),
                        UnicodeLower = (\<lambda>s. s),
                        Unmarshal = (\<lambda>b. Inl (LibError ''EOF''))\<rparr>"
  let ?c = "requestContext ''GET'' ''/search/'' [] [(''name'', ''laptop''), (''min_price'', ''100'')] []"
  have pf: "ParseFloat ?L ''100'' = (Finite 100, None)"
    by simp
  have name: "map_of (Query ?c) ''name'' = Some ''laptop''"
    and price: "map_of (Query ?c) ''min_price'' = Some ''100''"
    by (simp_all add: requestContext_def)
  have items: "allItems initialWorld = allItems_init"
    by (simp add: initialWorld_def)
  from search_laptop_min_price_100 [OF pf name price items, of stdoutLogger]
  show ?thesis
    by (simp add: initialWorld_def)
qed

text \<open>
  Claim C6. A request for item 1 on the item handler, with the initial database: the chain
  returns with status 200, the body holds \<^verbatim>\<open>name = "laptop"\<close> (with the item's
  identifier and price), and \<^verbatim>\<open>item_operations_total\<close> has grown by exactly one
  under \<^verbatim>\<open>operation="read", status="success"\<close> and not at all under any other labels.
\<close>

theorem get_item_1:
  assumes "Param c ''item_id'' = ''1''" and "fakeItemsDB w = fakeItemsDB_init"
  shows "\<exists>c' w'. structuredLogMiddleware logger (prometheusMiddleware readItem) c w = Inr (c', w') \<and>
     Status c' = 200 \<and>
     Response c' = Some [(''item_id'', GoInt 1), (''name'', GoString ''laptop''),
                         (''price'', GoFloat (Finite 1200))] \<and>
     map_of (the (Response c')) ''name'' = Some (GoString ''laptop'') \<and>
     itemOperationsTotal w' (''read'', ''success'') = Suc (itemOperationsTotal w (''read'', ''success'')) \<and>
     (\<forall>k. k \<noteq> (''read'', ''success'') \<longrightarrow> itemOperationsTotal w' k = itemOperationsTotal w k)"
proof -
  let ?c1 = "Set_key ''logger'' (KLogger (requestLogger logger (Span c))) c"
  have "Param ?c1 ''item_id'' = ''1''"
    using assms(1) by (simp add: Param_def)
  from readItem_1 [OF this assms(2) getLogger_Set_key]
  obtain c' w' where h: "readItem ?c1 w = Inr (c', w')"
    and res: "Status c' = 200"
      "Response c' = Some [(''item_id'', GoInt 1), (''name'', GoString ''laptop''),
                         (''price'', GoFloat (Finite 1200))]"
      "itemOperationsTotal w' (''read'', ''success'') = Suc (itemOperationsTotal w (''read'', ''success''))"
      "\<forall>k. k \<noteq> (''read'', ''success'') \<longrightarrow> itemOperationsTotal w' k = itemOperationsTotal w k"
    by blast
  from chain_run [of readItem logger c w c' w'] h res show ?thesis
    by auto
qed

theorem get_item_1_witness:
  "\<exists>c' w'. structuredLogMiddleware stdoutLogger (prometheusMiddleware readItem)
              (requestContext ''GET'' ''/items/:item_id'' [(''item_id'', ''1'')] [] []) initialWorld
            = Inr (c', w') \<and>
     Status c' = 200 \<and>
     map_of (the (Response c')) ''name'' = Some (GoString ''laptop'') \<and>
     itemOperationsTotal w' (''read'', ''success'') = 1"
proof -
  let ?c = "requestContext ''GET'' ''/items/:item_id'' [(''item_id'', ''1'')] [] []"
  have p: "Param ?c ''item_id'' = ''1''"
    by (simp add: Param_def requestContext_def)
  have db: "fakeItemsDB initialWorld = fakeItemsDB_init"
    by (simp add: initialWorld_def)
  from get_item_1 [OF p db, of stdoutLogger] show ?thesis
    by (auto simp add: initialWorld_def)
qed

text \<open>
  Claim C7. A create request whose body has no price, so that decoding it (if it decodes
  at all) leaves \<^verbatim>\<open>Price\<close> at its zero value: the chain returns with status 400, and
  \<^verbatim>\<open>item_operations_total\<close> has grown by exactly one under
  \<^verbatim>\<open>operation="create", status="bad_request"\<close> and not at all under any other labels.
\<close>

theorem post_item_missing_price:
  assumes "\<forall>it. Unmarshal L (Body c) = Inr it \<longrightarrow> Price it = Finite 0"
  shows "\<exists>c' w'. structuredLogMiddleware logger (prometheusMiddleware (createItem L)) c w = Inr (c', w') \<and>
     Status c' = 400 \<and>
     itemOperationsTotal w' (''create'', ''bad_request'')
       = Suc (itemOperationsTotal w (''create'', ''bad_request'')) \<and>
     (\<forall>k. k \<noteq> (''create'', ''bad_request'') \<longrightarrow> itemOperationsTotal w' k = itemOperationsTotal w k)"
proof -
  let ?c1 = "Set_key ''logger'' (KLogger (requestLogger logger (Span c))) c"
  have "\<forall>it. Unmarshal L (Body ?c1) = Inr it \<longrightarrow> Price it = Finite 0"
    using assms by simp
  from createItem_missing_price [OF this getLogger_Set_key]
  obtain c' w' where h: "createItem L ?c1 w = Inr (c', w')"
    and res: "Status c' = 400"
      "itemOperationsTotal w' (''create'', ''bad_request'')
         = Suc (itemOperationsTotal w (''create'', ''bad_request''))"
      "\<forall>k. k \<noteq> (''create'', ''bad_request'') \<longrightarrow> itemOperationsTotal w' k = itemOperationsTotal w k"
    by blast
  from chain_run [of "createItem L" logger c w c' w'] h res show ?thesis
    by auto
qed

theorem post_item_missing_price_witness:
  \<open>\<exists>c' w'. structuredLogMiddleware stdoutLogger
       (prometheusMiddleware
          (createItem \<lparr>ParseFloat = (\<lambda>s. (Finite 0, Some (NumError ''ParseFloat'' s ErrSyntax))),
                       UnicodeLower = (\<lambda>s. s),
                       Unmarshal = (\<lambda>b. Inr \<lparr>Name = ''tablet'', Price = Finite 0, IsOffer = None\<rparr>)\<rparr>))
       (requestContext ''POST'' ''/items/'' [] [] ''{"name": "tablet"}'') initialWorld = Inr (c', w') \<and>
     Status c' = 400 \<and>
     itemOperationsTotal w' (''create'', ''bad_request'') = 1\<close>
proof -
  let ?L = "\<lparr>ParseFloat = (\<lambda>s. (Finite 0, Some (NumError ''ParseFloat'' s ErrSyntax))),
                       UnicodeLower = (\<lambda>s. s),
                       Unmarshal = (\<lambda>b. Inr \<lparr>Name = ''tablet'', Price = Finite 0, IsOffer = None\<rparr>)\<rparr>"
  let ?c = \<open>requestContext ''POST'' ''/items/'' [] [] ''{"name": "tablet"}''\<close>
  have "\<forall>it. Unmarshal ?L (Body ?c) = Inr it \<longrightarrow> Price it = Finite 0"
    by auto
  from post_item_missing_price [OF this, of stdoutLogger initialWorld] show ?thesis
    by (auto simp add: initialWorld_def)
qed

text \<open>
  Claim C8 asks that a failure to open the log file be fatal and that a failure to set
  up the tracer be logged once and leave the service running without tracing. With the
  log directory and file in place and the trace collector out of reach, \<^verbatim>\<open>main\<close>
  does neither: it stays blocked in the dial of \<^verbatim>\<open>initTracer\<close>, no line is written
  and the router is never started.
\<close>

theorem startup_collector_unreachable:
  "outcome (main \<lparr>MkdirAll_err = None, OpenFile_err = None, collectorReachable = False,
                   Exporter_err = None, Resource_err = None, Run_err = None,
                   idSource = (\<lambda>c. \<lparr>TraceID = 1, SpanID = 1\<rparr>)\<rparr> initialWorld) = BlockedInDial \<and>
   serving (main \<lparr>MkdirAll_err = None, OpenFile_err = None, collectorReachable = False,
                   Exporter_err = None, Resource_err = None, Run_err = None,
                   idSource = (\<lambda>c. \<lparr>TraceID = 1, SpanID = 1\<rparr>)\<rparr> initialWorld) = None \<and>
   stdout (state (main \<lparr>MkdirAll_err = None, OpenFile_err = None, collectorReachable = False,
                   Exporter_err = None, Resource_err = None, Run_err = None,
                   idSource = (\<lambda>c. \<lparr>TraceID = 1, SpanID = 1\<rparr>)\<rparr> initialWorld)) = [] \<and>
   logfile (state (main \<lparr>MkdirAll_err = None, OpenFile_err = None, collectorReachable = False,
                   Exporter_err = None, Resource_err = None, Run_err = None,
                   idSource = (\<lambda>c. \<lparr>TraceID = 1, SpanID = 1\<rparr>)\<rparr> initialWorld)) = []"
  by (simp add: main_def newSlogLogger_def initTracer_def DialContext_def initialWorld_def)

text \<open>
  Claim C9. A search request whose \<^verbatim>\<open>min_price\<close> does not parse, on the initial item
  table: the handler returns with status 200 (not 400), the results are the rows whose
  name matches, whatever their price, and the state afterwards is the state before with
  the search counter incremented, one warning line about the parameter, one observation
  of the number of results, and the final information line, which reports
  \<^verbatim>\<open>min_price\<close> as 0.
\<close>

theorem search_invalid_min_price:
  assumes bad: "snd (ParseFloat L (DefaultQuery c ''min_price'' ''0'')) = Some err"
    and lg: "getLogger c = Inr lg" and items: "allItems w = allItems_init"
  shows "\<exists>c' w'. searchItems L c w = Inr (c', w') \<and> Status c' = 200 \<and>
      Response c' = Some [(''search_results'',
         GoSlice (map GoMap (filter (rowNameMatches L (Query_get c ''name'')) allItems_init)))] \<and>
      w' = emit lg LevelInfo ''Search performed''
             [(''query_name'', GoString (Query_get c ''name'')), (''min_price'', GoFloat (Finite 0)),
              (''results_found'',
               GoInt (int (length (filter (rowNameMatches L (Query_get c ''name'')) allItems_init))))]
             ((emit lg LevelWarn ''Invalid min_price query param''
                 [(''min_price'', GoString (DefaultQuery c ''min_price'' ''0'')), (''error'', GoError err)]
                 (w\<lparr>searchRequestsTotal := Suc (searchRequestsTotal w)\<rparr>))
              \<lparr>searchResultsCount := searchResultsCount w @
                 [Finite (real (length (filter (rowNameMatches L (Query_get c ''name'')) allItems_init)))]\<rparr>)"
  using assms
  by (simp add: searchItems_def Let_def searchLoop_filter allItems_init_wellTyped
      filter_price_zero JSON_def)

theorem search_invalid_min_price_witness:
  "\<exists>c' w'. searchItems \<lparr>ParseFloat = (\<lambda>s. (Finite 0, Some (NumError ''ParseFloat'' s ErrSyntax))),
                         UnicodeLower = (\<lambda>s. s),
                         Unmarshal = (\<lambda>b. Inl (LibError ''EOF''))\<rparr>
              (requestContext ''GET'' ''/search/'' [] [(''name'', ''mouse''), (''min_price'', ''abc'')] [])
              initialWorld = Inr (c', w') \<and>
     Status c' = 200 \<and>
     Response c' = Some [(''search_results'',
         GoSlice [GoMap [(''name'', GoString ''mouse''), (''price'', GoFloat (Finite 25))]])] \<and>
     map line_level (stdout w') = [LevelWarn, LevelInfo]"
proof -
  let ?L = "\<lparr>ParseFloat = (\<lambda>s. (Finite 0, Some (NumError ''ParseFloat'' s ErrSyntax))),
                         UnicodeLower = (\<lambda>s. s),
                         Unmarshal = (\<lambda>b. Inl (LibError ''EOF''))\<rparr>"
  let ?c = "requestContext ''GET'' ''/search/'' [] [(''name'', ''mouse''), (''min_price'', ''abc'')] []"
  have bad: "snd (ParseFloat ?L (DefaultQuery ?c ''min_price'' ''0''))
               = Some (NumError ''ParseFloat'' ''abc'' ErrSyntax)"
    by (simp add: DefaultQuery_def requestContext_def)
  have lg: "getLogger ?c = Inr stdoutLogger"
    by (simp add: getLogger_def requestContext_def)
  have items: "allItems initialWorld = allItems_init"
    by (simp add: initialWorld_def)
  have name: "Query_get ?c ''name'' = ''mouse''"
    by (simp add: Query_get_def DefaultQuery_def requestContext_def)
  have res: "filter (rowNameMatches ?L ''mouse'') allItems_init
               = [[(''name'', GoString ''mouse''), (''price'', GoFloat (Finite 25))]]"
    by (simp add: allItems_init_def rowNameMatches_def assertString_def nameMatch_def ToLower_names)
  from search_invalid_min_price [OF bad lg items] show ?thesis
    unfolding name res
    by (auto simp add: stdout_emit stdoutLogger_def render_def initialWorld_def)
qed

text \<open>
  Claim C10. Every create request returns and leaves both item tables as they were, so
  that any later item or search request is answered exactly as it would have been without
  the create request.
\<close>

theorem createItem_leaves_store_unchanged:
  "\<exists>c' w'. structuredLogMiddleware logger (prometheusMiddleware (createItem L)) c w = Inr (c', w') \<and>
     fakeItemsDB w' = fakeItemsDB w \<and> allItems w' = allItems w \<and>
     (\<forall>lg2 c2. reply (structuredLogMiddleware lg2 (prometheusMiddleware readItem) c2 w')
                = reply (structuredLogMiddleware lg2 (prometheusMiddleware readItem) c2 w)) \<and>
     (\<forall>lg2 c2. reply (structuredLogMiddleware lg2 (prometheusMiddleware (searchItems L)) c2 w')
                = reply (structuredLogMiddleware lg2 (prometheusMiddleware (searchItems L)) c2 w))"
proof -
  let ?c1 = "Set_key ''logger'' (KLogger (requestLogger logger (Span c))) c"
  from createItem_store [OF getLogger_Set_key]
  obtain c' w' where h: "createItem L ?c1 w = Inr (c', w')"
    and db: "fakeItemsDB w' = fakeItemsDB w" and items: "allItems w' = allItems w"
    by blast
  have run: "structuredLogMiddleware logger (prometheusMiddleware (createItem L)) c w
               = Inr (c', w'\<lparr>httpRequestDuration :=
                               Observe (httpRequestDuration w') (Method c', routeLabel c') (now w' - now w),
                             httpRequestsTotal :=
                               Inc (httpRequestsTotal w') (Method c', routeLabel c', Itoa (Status c'))\<rparr>)"
    (is "_ = Inr (c', ?w'')")
    using h by (simp add: structuredLogMiddleware_def prometheusMiddleware_def Let_def)
  have db': "fakeItemsDB ?w'' = fakeItemsDB w" and items': "allItems ?w'' = allItems w"
    using db items by simp_all
  have rd: "reply (structuredLogMiddleware lg2 (prometheusMiddleware readItem) c2 ?w'')
                = reply (structuredLogMiddleware lg2 (prometheusMiddleware readItem) c2 w)" for lg2 c2
    unfolding structuredLogMiddleware_def reply_prometheusMiddleware
    by (rule reply_readItem_store [OF db'])
  have sr: "reply (structuredLogMiddleware lg2 (prometheusMiddleware (searchItems L)) c2 ?w'')
                = reply (structuredLogMiddleware lg2 (prometheusMiddleware (searchItems L)) c2 w)" for lg2 c2
    unfolding structuredLogMiddleware_def reply_prometheusMiddleware
    by (rule reply_searchItems_store [OF items'])
  from run db' items' rd sr show ?thesis by blast
qed

theorem createItem_leaves_store_unchanged_witness:
  "\<exists>c' w'. structuredLogMiddleware stdoutLogger
       (prometheusMiddleware
          (createItem \<lparr>ParseFloat = (\<lambda>s. (Finite 0, None)), UnicodeLower = (\<lambda>s. s),
                       Unmarshal = (\<lambda>b. Inr \<lparr>Name = ''tablet'', Price = Finite 500, IsOffer = None\<rparr>)\<rparr>))
       (requestContext ''POST'' ''/items/'' [] [] ''tablet'') initialWorld = Inr (c', w') \<and>
     Status c' = 200 \<and>
     fakeItemsDB w' = fakeItemsDB_init \<and> allItems w' = allItems_init \<and>
     reply (structuredLogMiddleware stdoutLogger
              (prometheusMiddleware
                 (searchItems \<lparr>ParseFloat = (\<lambda>s. (Finite 0, None)), UnicodeLower = (\<lambda>s. s),
                       Unmarshal = (\<lambda>b. Inr \<lparr>Name = ''tablet'', Price = Finite 500, IsOffer = None\<rparr>)\<rparr>))
              (requestContext ''GET'' ''/search/'' [] [(''name'', ''tablet'')] []) w')
       = Inr (200, Some [(''search_results'', GoSlice [])])"
proof -
  let ?L = "\<lparr>ParseFloat = (\<lambda>s. (Finite 0, None)), UnicodeLower = (\<lambda>s. s),
                       Unmarshal = (\<lambda>b. Inr \<lparr>Name = ''tablet'', Price = Finite 500, IsOffer = None\<rparr>)\<rparr>"
  let ?c = "requestContext ''POST'' ''/items/'' [] [] ''tablet''"
  let ?c2 = "requestContext ''GET'' ''/search/'' [] [(''name'', ''tablet'')] []"
  from createItem_leaves_store_unchanged [of stdoutLogger ?L ?c initialWorld]
  obtain c' w' where run: "structuredLogMiddleware stdoutLogger (prometheusMiddleware (createItem ?L)) ?c initialWorld
                             = Inr (c', w')"
    and db: "fakeItemsDB w' = fakeItemsDB initialWorld" and items: "allItems w' = allItems initialWorld"
    and sr: "reply (structuredLogMiddleware stdoutLogger (prometheusMiddleware (searchItems ?L)) ?c2 w')
              = reply (structuredLogMiddleware stdoutLogger (prometheusMiddleware (searchItems ?L)) ?c2 initialWorld)"
    by blast
  from run have st: "Status c' = 200"
    by (auto simp add: structuredLogMiddleware_def prometheusMiddleware_def createItem_def
        getLogger_Set_key ShouldBindJSON_def validateItem_def JSON_def Let_def requestContext_def)
  have none: "filter (rowMatches ?L ''tablet'' (Finite 0)) allItems_init = []"
    by (simp add: allItems_init_def rowMatches_def assertString_def assertFloat64_def nameMatch_def
        ToLower_names ToLower_def isASCII_def lower_byte_def)
  have q: "Query_get (Set_key ''logger'' (KLogger (requestLogger stdoutLogger (Span ?c2))) ?c2) ''name''
             = ''tablet''"
    and mp: "DefaultQuery (Set_key ''logger'' (KLogger (requestLogger stdoutLogger (Span ?c2))) ?c2)
               ''min_price'' ''0'' = ''0''"
    by (simp_all add: Query_get_def DefaultQuery_def requestContext_def Set_key_def)
  have "reply (structuredLogMiddleware stdoutLogger (prometheusMiddleware (searchItems ?L)) ?c2 initialWorld)
          = Inr (200, Some [(''search_results'', GoSlice [])])"
    unfolding structuredLogMiddleware_def reply_prometheusMiddleware
    by (simp add: searchItems_def getLogger_Set_key Let_def q mp
        initialWorld_def searchLoop_filter allItems_init_wellTyped
        none reply_def JSON_def)
  with run st db items sr show ?thesis
    by (simp add: initialWorld_def)
qed

end
